theory Spec2Isabelle
  imports Complex_Main "HOL-Library.AList"
begin

section \<open>Echo.io game server: data model\<close>

text \<open>
  The model follows \<^verbatim>\<open>src/server.js\<close>. JavaScript numbers that are coordinates, angles
  or speeds are modelled as \<^typ>\<open>real\<close>; timestamps (milliseconds, \<^verbatim>\<open>Date.now()\<close>), health,
  score, kills and deaths are integers. Every callback receives the clock reading
  \<open>now\<close> as a parameter, and \<^verbatim>\<open>Math.random()\<close> reads the next value of a stream kept in
  the state.
\<close>

subsection \<open>The configuration constant\<close>

record config =
  worldWidth :: real
  worldHeight :: real
  playerSpeed :: real
  pingCooldown :: int
  pingDuration :: int
  maxPingRadius :: real
  minBots :: nat
  maxBots :: nat
  botSpeed :: real
  botPingChance :: real
  botDirectionChangeChance :: real
  botDetectionRange :: real
  botShootRange :: real
  botAccuracy :: real
  botAggressiveness :: real
  maxHealth :: int
  bulletDamage :: int
  bulletSpeed :: real
  bulletLifetime :: int
  shootCooldown :: int
  respawnTime :: int

definition gameConfig :: config where
  "gameConfig =
     \<lparr> worldWidth = 2000, worldHeight = 2000, playerSpeed = 3,
       pingCooldown = 1000, pingDuration = 2000, maxPingRadius = 300,
       minBots = 5, maxBots = 10, botSpeed = 2,
       botPingChance = 2 / 100, botDirectionChangeChance = 2 / 100,
       botDetectionRange = 400, botShootRange = 300,
       botAccuracy = 15 / 100, botAggressiveness = 8 / 10,
       maxHealth = 100, bulletDamage = 10, bulletSpeed = 10,
       bulletLifetime = 2000, shootCooldown = 200, respawnTime = 3000 \<rparr>"

subsection \<open>Entities, projectiles, events\<close>

text \<open>
  Player ids are socket ids, bot ids are \<^verbatim>\<open>bot_<n>\<close> with \<open>n\<close> taken from
  \<^verbatim>\<open>botIdCounter\<close>. The two name spaces are kept apart by the constructor, so
  \<^verbatim>\<open>players.get(id) || bots.get(id)\<close> looks a socket id up among the players and a bot id
  among the bots.
\<close>

datatype ident = SockId string | BotId nat

text \<open>
  One record for players and bots, as in the source. The fields \<open>direction\<close>,
  \<open>targetDirection\<close> and \<open>speed\<close> exist on bots only (they are left at 0 on players, which
  no code reads). \<open>color\<close> is the hue of the \<^verbatim>\<open>hsl(...)\<close> string, and \<open>entMaxHealth\<close> is
  the entity's own \<^verbatim>\<open>maxHealth\<close> field.
\<close>

record entity =
  eid :: ident
  name :: string
  pos_x :: real
  pos_y :: real
  color :: real
  lastPing :: int
  alive :: bool
  joinTime :: int
  score :: int
  kills :: int
  deaths :: int
  health :: int
  entMaxHealth :: int
  lastShoot :: int
  isBot :: bool
  direction :: real
  targetDirection :: real
  speed :: real

record bullet =
  bulletId :: nat
  ownerId :: ident
  ownerName :: string
  bullet_x :: real
  bullet_y :: real
  vx :: real
  vy :: real
  damage :: int
  bulletColor :: real
  createdAt :: int

text \<open>
  Who receives an emitted event: \<^verbatim>\<open>io.emit\<close> reaches every session, \<^verbatim>\<open>socket.emit\<close> the
  sender only, \<^verbatim>\<open>socket.broadcast.emit\<close> every session but the sender.
\<close>

datatype audience = ToAll | ToSender string | ToOthers string

datatype event =
    GameSetup ident entity "entity list"
  | PlayerJoined entity
  | PlayerLeft ident int
  | PlayerMoved ident real real
  | PingEmitted ident real real int real real
  | PingCooldown int
  | BulletFired bullet
  | BulletRemoved nat
  | PlayerHit ident int int ident
  | PlayerDied ident ident string int int int
  | PlayerRespawned ident real real int
  | PlayerNameUpdated ident string
  | ChatMessage ident real string int
  | GameState "entity list" "bullet list" "entity list" int

text \<open>
  The three \<^verbatim>\<open>Map\<close>s are association lists in insertion order; \<^verbatim>\<open>Map.set\<close> is
  \<^const>\<open>AList.update\<close> (an existing key keeps its place, a new one goes last),
  \<^verbatim>\<open>Map.delete\<close> is \<^const>\<open>AList.delete\<close>, and mutating a stored object is
  \<^const>\<open>AList.map_entry\<close>. \<open>timers\<close> holds the pending \<^verbatim>\<open>setTimeout\<close> respawn callbacks
  (due time and player id), \<open>outbox\<close> every event emitted so far, oldest first.
\<close>

record state =
  players :: "(string \<times> entity) list"
  bots :: "(nat \<times> entity) list"
  bullets :: "(nat \<times> bullet) list"
  bulletIdCounter :: nat
  botIdCounter :: nat
  timers :: "(int \<times> ident) list"
  outbox :: "(audience \<times> event) list"
  rng :: "nat \<Rightarrow> real"
  rngIdx :: nat

definition emit :: "audience \<Rightarrow> event \<Rightarrow> state \<Rightarrow> state" where
  "emit a e st = st\<lparr>outbox := outbox st @ [(a, e)]\<rparr>"

fun playersGet :: "state \<Rightarrow> ident \<Rightarrow> entity option" where
  "playersGet st (SockId s) = map_of (players st) s"
| "playersGet st (BotId n) = None"

fun botsGet :: "state \<Rightarrow> ident \<Rightarrow> entity option" where
  "botsGet st (SockId s) = None"
| "botsGet st (BotId n) = map_of (bots st) n"

text \<open>\<^verbatim>\<open>players.get(id) || bots.get(id)\<close>\<close>

definition getEntity :: "state \<Rightarrow> ident \<Rightarrow> entity option" where
  "getEntity st i = (case playersGet st i of Some e \<Rightarrow> Some e | None \<Rightarrow> botsGet st i)"

text \<open>Assignment to fields of the object that \<^const>\<open>getEntity\<close> returns.\<close>

fun modifyEntity :: "ident \<Rightarrow> (entity \<Rightarrow> entity) \<Rightarrow> state \<Rightarrow> state" where
  "modifyEntity (SockId s) f st = st\<lparr>players := AList.map_entry s f (players st)\<rparr>"
| "modifyEntity (BotId n) f st = st\<lparr>bots := AList.map_entry n f (bots st)\<rparr>"

definition allEntities :: "state \<Rightarrow> entity list" where
  "allEntities st = map snd (players st) @ map snd (bots st)"

section \<open>Population Manager\<close>

definition botNames :: "string list" where
  "botNames = [''Shadow'', ''Ghost'', ''Phantom'', ''Specter'', ''Wraith'', ''Echo'',
               ''Pulse'', ''Whisper'', ''Stealth'', ''Hunter'']"

text \<open>\<^verbatim>\<open>botNames[Math.floor(r * botNames.length)]\<close>; an index out of range reads
  \<^verbatim>\<open>undefined\<close>.\<close>

definition pickBotName :: "real \<Rightarrow> string" where
  "pickBotName r =
     (let i = \<lfloor>r * real (length botNames)\<rfloor>
      in if 0 \<le> i \<and> i < int (length botNames) then botNames ! nat i else ''undefined'')"

definition createBot :: "int \<Rightarrow> state \<Rightarrow> state" where
  "createBot now st =
     (let botId = botIdCounter st;
          r = rng st;
          i = rngIdx st;
          newBot = \<lparr> eid = BotId botId,
                  name = ''[BOT] '' @ pickBotName (r i),
                  pos_x = r (i + 1) * worldWidth gameConfig,
                  pos_y = r (i + 2) * worldHeight gameConfig,
                  color = r (i + 3) * 360,
                  lastPing = 0,
                  alive = True,
                  joinTime = now,
                  score = 0,
                  kills = 0,
                  deaths = 0,
                  health = maxHealth gameConfig,
                  entMaxHealth = maxHealth gameConfig,
                  lastShoot = 0,
                  isBot = True,
                  direction = r (i + 4) * pi * 2,
                  targetDirection = r (i + 5) * pi * 2,
                  speed = botSpeed gameConfig \<rparr>
      in emit ToAll (PlayerJoined newBot)
           (st\<lparr> botIdCounter := botId + 1, rngIdx := i + 6,
                bots := AList.update botId newBot (bots st) \<rparr>))"

definition removeBot :: "nat \<Rightarrow> state \<Rightarrow> state" where
  "removeBot botId st =
     (case map_of (bots st) botId of
        None \<Rightarrow> st
      | Some oldBot \<Rightarrow>
          emit ToAll (PlayerLeft (BotId botId) (score oldBot))
            (st\<lparr>bots := AList.delete botId (bots st)\<rparr>))"

definition manageBotPopulation :: "int \<Rightarrow> state \<Rightarrow> state" where
  "manageBotPopulation now st =
     (let totalPlayers = length (players st) + length (bots st);
          st1 = (if totalPlayers < minBots gameConfig
                 then (createBot now ^^ (minBots gameConfig - totalPlayers)) st
                 else st)
      in if length (bots st1) > 0 \<and> totalPlayers > maxBots gameConfig
         then (let botsToRemove = min (length (bots st1)) (totalPlayers - maxBots gameConfig);
                   botIds = map fst (bots st1)
               in fold removeBot (take botsToRemove botIds) st1)
         else st1)"

section \<open>Session Gateway\<close>

definition respawnPlayer :: "ident \<Rightarrow> state \<Rightarrow> state" where
  "respawnPlayer playerId st =
     (case playersGet st playerId of
        None \<Rightarrow> st
      | Some player \<Rightarrow>
          (let nx = rng st (rngIdx st) * worldWidth gameConfig;
               ny = rng st (rngIdx st + 1) * worldHeight gameConfig;
               st1 = modifyEntity playerId
                       (\<lambda>p. p\<lparr> pos_x := nx, pos_y := ny, health := maxHealth gameConfig,
                                alive := True, lastShoot := 0, lastPing := 0 \<rparr>)
                       (st\<lparr>rngIdx := rngIdx st + 2\<rparr>)
           in emit ToAll (PlayerRespawned playerId nx ny (maxHealth gameConfig)) st1))"

definition connection :: "string \<Rightarrow> int \<Rightarrow> state \<Rightarrow> state" where
  "connection sid now st =
     (let r = rng st;
          i = rngIdx st;
          newPlayer = \<lparr> eid = SockId sid,
                        name = ''Player'',
                        pos_x = r i * worldWidth gameConfig,
                        pos_y = r (i + 1) * worldHeight gameConfig,
                        color = r (i + 2) * 360,
                        lastPing = 0,
                        alive = True,
                        joinTime = now,
                        score = 0,
                        kills = 0,
                        deaths = 0,
                        health = maxHealth gameConfig,
                        entMaxHealth = maxHealth gameConfig,
                        lastShoot = 0,
                        isBot = False,
                        direction = 0,
                        targetDirection = 0,
                        speed = 0 \<rparr>;
          st1 = st\<lparr> rngIdx := i + 3, players := AList.update sid newPlayer (players st) \<rparr>;
          st2 = emit (ToSender sid) (GameSetup (SockId sid) newPlayer (allEntities st1)) st1
      in emit (ToOthers sid) (PlayerJoined newPlayer) st2)"

text \<open>
  The handlers do not check the type of a payload. A coordinate reaches \<^verbatim>\<open>Math.min\<close> as the
  JavaScript number that \<^verbatim>\<open>ToNumber\<close> gives for the received value: a number or a numeric
  string is that number (\<^verbatim>\<open>"Infinity"\<close> is infinite), \<^verbatim>\<open>null\<close>, \<^verbatim>\<open>false\<close> and the empty string are
  0, and a missing property (\<^verbatim>\<open>undefined\<close>), any other string or a plain object is \<^verbatim>\<open>NaN\<close>.
\<close>

datatype jsnum = Num real | PosInf | NegInf | NaN

text \<open>\<^verbatim>\<open>Math.min(c, v)\<close> and \<^verbatim>\<open>Math.max(c, v)\<close> for a finite constant \<open>c\<close>: \<^verbatim>\<open>NaN\<close> propagates.\<close>

fun jsMin :: "real \<Rightarrow> jsnum \<Rightarrow> jsnum" where
  "jsMin c (Num r) = Num (min c r)"
| "jsMin c PosInf = Num c"
| "jsMin c NegInf = NegInf"
| "jsMin c NaN = NaN"

fun jsMax :: "real \<Rightarrow> jsnum \<Rightarrow> jsnum" where
  "jsMax c (Num r) = Num (max c r)"
| "jsMax c PosInf = PosInf"
| "jsMax c NegInf = Num c"
| "jsMax c NaN = NaN"

text \<open>
  The stores of the model hold numeric positions. A run of the move handler that leaves
  them is an outcome of its own: \<open>TypeError\<close> when reading \<^verbatim>\<open>movementData.x\<close> throws (the payload
  is \<^verbatim>\<open>undefined\<close> or \<^verbatim>\<open>null\<close>; nothing has been assigned yet), and \<open>NotANumber x y\<close> when the
  handler assigns \<open>x\<close> and \<open>y\<close> to \<^verbatim>\<open>player.x\<close> and \<^verbatim>\<open>player.y\<close> and broadcasts them in
  \<^verbatim>\<open>playerMoved\<close>, one of them being \<^verbatim>\<open>NaN\<close>.
\<close>

datatype moveError = TypeError | NotANumber jsnum jsnum

text \<open>
  \<open>movementData\<close> is \<open>None\<close> for a payload that is \<^verbatim>\<open>undefined\<close> or \<^verbatim>\<open>null\<close>, and otherwise
  the pair of its \<^verbatim>\<open>x\<close> and \<^verbatim>\<open>y\<close> properties as numbers.
\<close>

definition playerMove :: "string \<Rightarrow> (jsnum \<times> jsnum) option \<Rightarrow> state \<Rightarrow> moveError + state" where
  "playerMove sid movementData st =
     (case map_of (players st) sid of
        None \<Rightarrow> Inr st
      | Some player \<Rightarrow>
          if \<not> alive player then Inr st
          else
            (case movementData of
               None \<Rightarrow> Inl TypeError
             | Some (mx, my) \<Rightarrow>
                 (let nx = jsMax 0 (jsMin (worldWidth gameConfig) mx);
                      ny = jsMax 0 (jsMin (worldHeight gameConfig) my)
                  in case (nx, ny) of
                       (Num x, Num y) \<Rightarrow>
                         Inr (emit (ToOthers sid) (PlayerMoved (SockId sid) x y)
                                (modifyEntity (SockId sid) (\<lambda>p. p\<lparr>pos_x := x, pos_y := y\<rparr>) st))
                     | _ \<Rightarrow> Inl (NotANumber nx ny))))"

definition emitPing :: "string \<Rightarrow> int \<Rightarrow> state \<Rightarrow> state" where
  "emitPing sid now st =
     (case map_of (players st) sid of
        None \<Rightarrow> st
      | Some player \<Rightarrow>
          if \<not> alive player then st
          else if now - lastPing player < pingCooldown gameConfig
          then emit (ToSender sid)
                 (PingCooldown (pingCooldown gameConfig - (now - lastPing player))) st
          else (let st1 = modifyEntity (SockId sid) (\<lambda>p. p\<lparr>lastPing := now\<rparr>) st;
                    st2 = emit ToAll
                            (PingEmitted (SockId sid) (pos_x player) (pos_y player) now
                               (color player) (maxPingRadius gameConfig)) st1
                in modifyEntity (SockId sid)
                     (\<lambda>p. p\<lparr>score := (now - joinTime p) div 1000\<rparr>) st2))"

definition shoot :: "string \<Rightarrow> real \<Rightarrow> int \<Rightarrow> state \<Rightarrow> state" where
  "shoot sid angle now st =
     (case map_of (players st) sid of
        None \<Rightarrow> st
      | Some player \<Rightarrow>
          if \<not> alive player then st
          else if now - lastShoot player < shootCooldown gameConfig then st
          else (let st1 = modifyEntity (SockId sid) (\<lambda>p. p\<lparr>lastShoot := now\<rparr>) st;
                    bId = bulletIdCounter st1;
                    b = \<lparr> bulletId = bId,
                          ownerId = SockId sid,
                          ownerName = name player,
                          bullet_x = pos_x player,
                          bullet_y = pos_y player,
                          vx = cos angle * bulletSpeed gameConfig,
                          vy = sin angle * bulletSpeed gameConfig,
                          damage = bulletDamage gameConfig,
                          bulletColor = color player,
                          createdAt = now \<rparr>
                in emit ToAll (BulletFired b)
                     (st1\<lparr> bulletIdCounter := bId + 1,
                           bullets := AList.update bId b (bullets st1) \<rparr>)))"

text \<open>The eliminator's name is read after the credit; crediting does not change it.\<close>

definition playerEliminated :: "string \<Rightarrow> ident \<Rightarrow> int \<Rightarrow> state \<Rightarrow> state" where
  "playerEliminated sid eliminatorId now st =
     (case map_of (players st) sid of
        None \<Rightarrow> st
      | Some player0 \<Rightarrow>
          (let st1 = modifyEntity (SockId sid)
                       (\<lambda>p. p\<lparr>alive := False, deaths := deaths p + 1\<rparr>) st;
               eliminator = getEntity st1 eliminatorId;
               st2 = (case eliminator of
                        None \<Rightarrow> st1
                      | Some e \<Rightarrow>
                          modifyEntity eliminatorId
                            (\<lambda>p. p\<lparr>kills := kills p + 1, score := score p + 100\<rparr>) st1);
               st3 = (case map_of (players st2) sid of
                        None \<Rightarrow> st2
                      | Some player \<Rightarrow>
                          emit ToAll
                            (PlayerDied (SockId sid) eliminatorId
                               (case eliminator of None \<Rightarrow> ''Unknown'' | Some e \<Rightarrow> name e)
                               (score player) (kills player) (deaths player)) st2)
           in st3\<lparr>timers := timers st3 @ [(now + respawnTime gameConfig, SockId sid)]\<rparr>))"

definition disconnect :: "string \<Rightarrow> int \<Rightarrow> state \<Rightarrow> state" where
  "disconnect sid now st =
     (case map_of (players st) sid of
        None \<Rightarrow> st
      | Some player \<Rightarrow>
          (let finalScore = (now - joinTime player) div 1000;
               st1 = modifyEntity (SockId sid) (\<lambda>p. p\<lparr>score := finalScore\<rparr>) st;
               st2 = emit (ToOthers sid) (PlayerLeft (SockId sid) finalScore) st1;
               st3 = st2\<lparr>players := AList.delete sid (players st2)\<rparr>
           in manageBotPopulation now st3))"

definition setPlayerName :: "string \<Rightarrow> string \<Rightarrow> state \<Rightarrow> state" where
  "setPlayerName sid nm st =
     (case map_of (players st) sid of
        None \<Rightarrow> st
      | Some player \<Rightarrow>
          (let newName = (if nm = [] then ''Anonymous'' else nm);
               st1 = modifyEntity (SockId sid) (\<lambda>p. p\<lparr>name := newName\<rparr>) st
           in emit ToAll (PlayerNameUpdated (SockId sid) newName) st1))"

definition chatMessage :: "string \<Rightarrow> string \<Rightarrow> int \<Rightarrow> state \<Rightarrow> state" where
  "chatMessage sid message now st =
     (case map_of (players st) sid of
        None \<Rightarrow> st
      | Some player \<Rightarrow>
          emit ToAll (ChatMessage (SockId sid) (color player) message now) st)"

text \<open>A respawn timer that has come due runs its callback and leaves the queue.\<close>

definition fireTimer :: "nat \<Rightarrow> state \<Rightarrow> state" where
  "fireTimer k st =
     (if k < length (timers st)
      then respawnPlayer (snd (timers st ! k))
             (st\<lparr>timers := take k (timers st) @ drop (Suc k) (timers st)\<rparr>)
      else st)"

section \<open>Combat Resolver\<close>

text \<open>
  \<^verbatim>\<open>[...players.values(), ...bots.values()]\<close> is an array of object references; the
  model keeps the references as ids and reads the current object through
  \<^const>\<open>getEntity\<close>.
\<close>

definition allTargets :: "state \<Rightarrow> ident list" where
  "allTargets st = map (\<lambda>(k, e). SockId k) (players st) @ map (\<lambda>(k, e). BotId k) (bots st)"

text \<open>
  The body of \<^verbatim>\<open>allTargets.forEach(target => ...)\<close> for one target. \<open>b\<close> is the bullet
  object of the enclosing callback, which stays readable after \<^verbatim>\<open>bullets.delete\<close>.
\<close>

definition hitTarget :: "int \<Rightarrow> nat \<Rightarrow> bullet \<Rightarrow> ident \<Rightarrow> state \<Rightarrow> state" where
  "hitTarget now bId b ref st =
     (case getEntity st ref of
        None \<Rightarrow> st
      | Some target \<Rightarrow>
          if eid target = ownerId b \<or> \<not> alive target then st
          else
            (let dx = pos_x target - bullet_x b;
                 dy = pos_y target - bullet_y b;
                 distance = sqrt (dx * dx + dy * dy)
             in if distance < 15
                then
                  (let newHealth = health target - damage b;
                       st1 = modifyEntity ref (\<lambda>t. t\<lparr>health := newHealth\<rparr>) st;
                       st2 = emit ToAll
                               (PlayerHit (eid target) (damage b) newHealth (ownerId b)) st1;
                       st3 = st2\<lparr>bullets := AList.delete bId (bullets st2)\<rparr>;
                       st4 = emit ToAll (BulletRemoved bId) st3
                   in if newHealth \<le> 0
                      then
                        (let st5 = modifyEntity ref
                                     (\<lambda>t. t\<lparr>alive := False, deaths := deaths t + 1,
                                             health := 0\<rparr>) st4;
                             st6 = (case getEntity st5 (ownerId b) of
                                      None \<Rightarrow> st5
                                    | Some shooter \<Rightarrow>
                                        modifyEntity (ownerId b)
                                          (\<lambda>s. s\<lparr>kills := kills s + 1,
                                                  score := score s + 100\<rparr>) st5);
                             st7 = (case getEntity st6 ref of
                                      None \<Rightarrow> st6
                                    | Some t \<Rightarrow>
                                        emit ToAll
                                          (PlayerDied (eid t) (ownerId b) (ownerName b)
                                             (score t) (kills t) (deaths t)) st6)
                         in if \<not> isBot target
                            then st7\<lparr>timers := timers st7 @
                                       [(now + respawnTime gameConfig, eid target)]\<rparr>
                            else
                              modifyEntity ref
                                (\<lambda>t. t\<lparr>pos_x := rng st7 (rngIdx st7) * worldWidth gameConfig,
                                        pos_y := rng st7 (rngIdx st7 + 1) *
                                                   worldHeight gameConfig,
                                        health := maxHealth gameConfig,
                                        alive := True\<rparr>)
                                (st7\<lparr>rngIdx := rngIdx st7 + 2\<rparr>))
                      else st4)
                else st))"

text \<open>The body of \<^verbatim>\<open>bullets.forEach((bullet, bulletId) => ...)\<close> for one bullet.\<close>

definition updateBullet :: "int \<Rightarrow> nat \<Rightarrow> state \<Rightarrow> state" where
  "updateBullet now bId st =
     (case map_of (bullets st) bId of
        None \<Rightarrow> st
      | Some b0 \<Rightarrow>
          (let b = b0\<lparr>bullet_x := bullet_x b0 + vx b0, bullet_y := bullet_y b0 + vy b0\<rparr>;
               st1 = st\<lparr>bullets := AList.map_entry bId (\<lambda>_. b) (bullets st)\<rparr>
           in if now - createdAt b > bulletLifetime gameConfig \<or>
                 bullet_x b < 0 \<or> bullet_x b > worldWidth gameConfig \<or>
                 bullet_y b < 0 \<or> bullet_y b > worldHeight gameConfig
              then emit ToAll (BulletRemoved bId)
                     (st1\<lparr>bullets := AList.delete bId (bullets st1)\<rparr>)
              else fold (hitTarget now bId b) (allTargets st1) st1))"

text \<open>
  \<^verbatim>\<open>Map.forEach\<close> visits the entries in insertion order and skips an entry deleted before
  its turn; a callback here deletes its own bullet only.
\<close>

definition updateBullets :: "int \<Rightarrow> state \<Rightarrow> state" where
  "updateBullets now st = fold (updateBullet now) (map fst (bullets st)) st"

section \<open>Bot Controller\<close>

text \<open>\<^verbatim>\<open>Math.atan2(y, x)\<close>\<close>

definition atan2 :: "real \<Rightarrow> real \<Rightarrow> real" where
  "atan2 y x =
     (if x > 0 then arctan (y / x)
      else if x < 0 then (if y \<ge> 0 then arctan (y / x) + pi else arctan (y / x) - pi)
      else if y > 0 then pi / 2
      else if y < 0 then - pi / 2
      else 0)"

text \<open>
  One step of the two perception loops: \<open>best\<close> is \<^verbatim>\<open>(nearestDistance, nearestEnemy)\<close>,
  \<open>None\<close> standing for \<^verbatim>\<open>(Infinity, null)\<close>.
\<close>

definition considerEnemy :: "entity \<Rightarrow> entity \<Rightarrow> (real \<times> entity) option \<Rightarrow> (real \<times> entity) option" where
  "considerEnemy b e best =
     (if \<not> alive e then best
      else
        (let dx = pos_x e - pos_x b;
             dy = pos_y e - pos_y b;
             distance = sqrt (dx * dx + dy * dy)
         in if (case best of None \<Rightarrow> True | Some (nd, _) \<Rightarrow> distance < nd) \<and>
               distance < botDetectionRange gameConfig
            then Some (distance, e)
            else best))"

definition findNearestEnemy :: "entity \<Rightarrow> state \<Rightarrow> (real \<times> entity) option" where
  "findNearestEnemy b st =
     (let afterPlayers = fold (considerEnemy b) (map snd (players st)) None
      in fold (\<lambda>otherBot best. if eid otherBot = eid b then best
                                else considerEnemy b otherBot best)
           (map snd (bots st)) afterPlayers)"

text \<open>
  Behaviour selection for a bot that has found an enemy at distance \<open>nd\<close>: the new
  target heading and speed, and the number of random values read.
\<close>

definition pursue :: "entity \<Rightarrow> real \<Rightarrow> real \<Rightarrow> (nat \<Rightarrow> real) \<Rightarrow> nat \<Rightarrow> entity \<times> nat" where
  "pursue b nd angleToEnemy r i =
     (if r i < botAggressiveness gameConfig
      then (b\<lparr>targetDirection := angleToEnemy, speed := botSpeed gameConfig * (3 / 2)\<rparr>, i + 1)
      else if nd < 150
      then (b\<lparr>targetDirection := angleToEnemy + pi, speed := botSpeed gameConfig\<rparr>, i + 1)
      else (b\<lparr>targetDirection := angleToEnemy + (r (i + 1) - 1 / 2) * (1 / 2),
              speed := botSpeed gameConfig\<rparr>, i + 2))"

definition wander :: "entity \<Rightarrow> (nat \<Rightarrow> real) \<Rightarrow> nat \<Rightarrow> entity \<times> nat" where
  "wander b r i =
     (let b1 = b\<lparr>speed := botSpeed gameConfig\<rparr>
      in if r i < botDirectionChangeChance gameConfig
         then (b1\<lparr>targetDirection := r (i + 1) * pi * 2\<rparr>, i + 2)
         else (b1, i + 1))"

text \<open>Steering, movement and wall bounce (the block from the smoothing to the position
  assignment).\<close>

definition moveBot :: "entity \<Rightarrow> entity" where
  "moveBot b =
     (let directionDiff = targetDirection b - direction b;
          d = direction b + directionDiff * (1 / 10);
          currentSpeed = (if speed b = 0 then botSpeed gameConfig else speed b);
          newX = pos_x b + cos d * currentSpeed;
          newY = pos_y b + sin d * currentSpeed;
          b1 = b\<lparr>direction := d\<rparr>;
          b2 = (if newX < 50 \<or> newX > worldWidth gameConfig - 50
                then b1\<lparr>direction := pi - direction b1, targetDirection := pi - direction b1\<rparr>
                else b1);
          newX' = (if newX < 50 \<or> newX > worldWidth gameConfig - 50
                   then max 50 (min (worldWidth gameConfig - 50) newX) else newX);
          b3 = (if newY < 50 \<or> newY > worldHeight gameConfig - 50
                then b2\<lparr>direction := - direction b2, targetDirection := - direction b2\<rparr>
                else b2);
          newY' = (if newY < 50 \<or> newY > worldHeight gameConfig - 50
                   then max 50 (min (worldHeight gameConfig - 50) newY) else newY)
      in b3\<lparr>pos_x := newX', pos_y := newY'\<rparr>)"

text \<open>
  The branch taken when an enemy was found: behaviour selection, then the fire decision.
  The bullet starts at the bot's position before this tick's move.
\<close>

definition engage :: "int \<Rightarrow> entity \<Rightarrow> real \<Rightarrow> entity \<Rightarrow> nat \<Rightarrow> state \<Rightarrow> entity \<times> nat \<times> state" where
  "engage now b nd enemy i st =
     (let r = rng st;
          angleToEnemy = atan2 (pos_y enemy - pos_y b) (pos_x enemy - pos_x b);
          (b1, i1) = pursue b nd angleToEnemy r i
      in if nd < botShootRange gameConfig \<and> now - lastShoot b1 > shootCooldown gameConfig
         then
           (let b2 = b1\<lparr>lastShoot := now\<rparr>;
                distanceFactor = nd / botShootRange gameConfig;
                accuracy = botAccuracy gameConfig * (1 + distanceFactor);
                shootAngle = angleToEnemy + (r i1 - 1 / 2) * accuracy;
                bId = bulletIdCounter st;
                newBullet = \<lparr> bulletId = bId,
                              ownerId = eid b2,
                              ownerName = name b2,
                              bullet_x = pos_x b2,
                              bullet_y = pos_y b2,
                              vx = cos shootAngle * bulletSpeed gameConfig,
                              vy = sin shootAngle * bulletSpeed gameConfig,
                              damage = bulletDamage gameConfig,
                              bulletColor = color b2,
                              createdAt = now \<rparr>
            in (b2, i1 + 1,
                emit ToAll (BulletFired newBullet)
                  (st\<lparr>bulletIdCounter := bId + 1,
                      bullets := AList.update bId newBullet (bullets st)\<rparr>)))
         else (b1, i1, st))"

text \<open>The body of \<^verbatim>\<open>bots.forEach(bot => ...)\<close> in \<^verbatim>\<open>updateBots\<close> for the bot stored under
  \<open>key\<close>. The local copy of the bot is written back to the store after the move.\<close>

definition updateBot :: "int \<Rightarrow> nat \<Rightarrow> state \<Rightarrow> state" where
  "updateBot now key st =
     (case map_of (bots st) key of
        None \<Rightarrow> st
      | Some bot0 \<Rightarrow>
          if \<not> alive bot0 then st
          else
            (let b1 = bot0\<lparr>score := (now - joinTime bot0) div 1000 + kills bot0 * 100\<rparr>;
                 nearest = findNearestEnemy b1 st;
                 (b2, i2, stF) =
                   (case nearest of
                      None \<Rightarrow> (let (w, i1) = wander b1 (rng st) (rngIdx st) in (w, i1, st))
                    | Some (nd, enemy) \<Rightarrow>
                        if nd < botDetectionRange gameConfig
                        then engage now b1 nd enemy (rngIdx st) st
                        else (let (w, i1) = wander b1 (rng st) (rngIdx st) in (w, i1, st)));
                 b3 = moveBot b2;
                 st1 = stF\<lparr>bots := AList.map_entry key (\<lambda>_. b3) (bots stF)\<rparr>;
                 st2 = emit ToAll (PlayerMoved (eid b3) (pos_x b3) (pos_y b3)) st1;
                 st3 = st2\<lparr>rngIdx := i2 + 1\<rparr>
             in if rng st i2 < botPingChance gameConfig * 2 \<and>
                   now - lastPing b3 > pingCooldown gameConfig
                then
                  (if (case nearest of None \<Rightarrow> True | Some (nd, enemy) \<Rightarrow> nd > 200)
                   then emit ToAll
                          (PingEmitted (eid b3) (pos_x b3) (pos_y b3) now (color b3)
                             (maxPingRadius gameConfig))
                          (st3\<lparr>bots := AList.map_entry key (\<lambda>e. e\<lparr>lastPing := now\<rparr>)
                                          (bots st3)\<rparr>)
                   else st3)
                else st3))"

definition updateBots :: "int \<Rightarrow> state \<Rightarrow> state" where
  "updateBots now st = fold (updateBot now) (map fst (bots st)) st"

section \<open>Tick Scheduler\<close>

definition recomputeScore :: "int \<Rightarrow> entity \<Rightarrow> entity" where
  "recomputeScore now e =
     (if alive e then e\<lparr>score := (now - joinTime e) div 1000 + kills e * 100\<rparr> else e)"

definition recomputeScores :: "int \<Rightarrow> state \<Rightarrow> state" where
  "recomputeScores now st =
     st\<lparr>players := map (\<lambda>(k, e). (k, recomputeScore now e)) (players st),
        bots := map (\<lambda>(k, e). (k, recomputeScore now e)) (bots st)\<rparr>"

text \<open>
  The leaderboard rows are given by their entities; the \<^verbatim>\<open>kd\<close> column is computed from
  \<open>kills\<close> and \<open>deaths\<close> of the row. \<^verbatim>\<open>Array.prototype.sort\<close> is stable.
\<close>

definition getLeaderboard :: "state \<Rightarrow> entity list" where
  "getLeaderboard st = take 10 (sort_key (\<lambda>e. - score e) (allEntities st))"

definition tick :: "int \<Rightarrow> state \<Rightarrow> state" where
  "tick now st =
     (let st1 = updateBots now st;
          st2 = updateBullets now st1;
          st3 = manageBotPopulation now st2;
          st4 = recomputeScores now st3
      in if allEntities st4 \<noteq> []
         then emit ToAll
                (GameState (allEntities st4) (map snd (bullets st4)) (getLeaderboard st4) now) st4
         else st4)"

section \<open>Store invariants\<close>

text \<open>
  What a bot \<^verbatim>\<open>Map\<close> always satisfies: keys are distinct, and every bot id in use is
  below \<^verbatim>\<open>botIdCounter\<close>, so that \<^verbatim>\<open>createBot\<close> adds a new entry.
\<close>

definition wfBots :: "state \<Rightarrow> bool" where
  "wfBots st =
     (distinct (map fst (bots st)) \<and>
      list_all (\<lambda>k. k < botIdCounter st) (map fst (bots st)))"

text \<open>
  The population bound that the code maintains: at least \<open>minBots\<close> entities, and at most
  \<open>maxBots\<close> unless the humans alone are more (only bots are ever removed).
\<close>

definition populationWithinBounds :: "state \<Rightarrow> bool" where
  "populationWithinBounds st =
     (let humanCount = length (players st); botCount = length (bots st)
      in minBots gameConfig \<le> humanCount + botCount \<and>
         humanCount + botCount \<le> max (maxBots gameConfig) humanCount)"

text \<open>Two states with the same keys in both entity stores and the same bot counter.\<close>

definition sameKeys :: "state \<Rightarrow> state \<Rightarrow> bool" where
  "sameKeys s s' =
     (map fst (bots s') = map fst (bots s) \<and> map fst (players s') = map fst (players s) \<and>
      botIdCounter s' = botIdCounter s)"

text \<open>
  \<open>emitsOnly P s s'\<close>: the outbox of \<open>s'\<close> is the outbox of \<open>s\<close> followed by events that all
  satisfy \<open>P\<close>. \<open>notLeaveOf sid\<close> holds of every event but a \<^verbatim>\<open>playerLeft\<close> for the socket
  \<open>sid\<close>.
\<close>

definition emitsOnly :: "(audience \<times> event \<Rightarrow> bool) \<Rightarrow> state \<Rightarrow> state \<Rightarrow> bool" where
  "emitsOnly P s s' = (\<exists>evs. outbox s' = outbox s @ evs \<and> list_all P evs)"

definition notLeaveOf :: "string \<Rightarrow> audience \<times> event \<Rightarrow> bool" where
  "notLeaveOf sid ae = (case snd ae of PlayerLeft i fs \<Rightarrow> i \<noteq> SockId sid | _ \<Rightarrow> True)"

section \<open>Concrete states\<close>

text \<open>A living player \<open>a\<close> at full health, alone in the world.\<close>

definition p0 :: entity where
  "p0 = \<lparr> eid = SockId ''a'', name = ''Player'', pos_x = 100, pos_y = 100, color = 0,
           lastPing = 0, alive = True, joinTime = 0, score = 0, kills = 0, deaths = 0,
           health = 100, entMaxHealth = 100, lastShoot = 0, isBot = False,
           direction = 0, targetDirection = 0, speed = 0 \<rparr>"

definition st0 :: state where
  "st0 = \<lparr> players = [(''a'', p0)], bots = [], bullets = [], bulletIdCounter = 0,
            botIdCounter = 0, timers = [], outbox = [], rng = (\<lambda>_. 1 / 2), rngIdx = 0 \<rparr>"

text \<open>The same player with two kills, as scored by the last tick at time 5500.\<close>

definition pK :: entity where
  "pK = p0\<lparr>kills := 2, score := 205\<rparr>"

definition stK :: state where
  "stK = st0\<lparr>players := [(''a'', pK)]\<rparr>"

text \<open>The same player, dead and waiting for the respawn.\<close>

definition pDead :: entity where
  "pDead = p0\<lparr>alive := False, health := 0\<rparr>"

definition stDead :: state where
  "stDead = st0\<lparr>players := [(''a'', pDead)]\<rparr>"

text \<open>Eleven connected players and no bot.\<close>

definition crowd :: state where
  "crowd = st0\<lparr>players := map (\<lambda>s. (s, p0\<lparr>eid := SockId s\<rparr>))
      [''a'', ''b'', ''c'', ''d'', ''e'', ''f'', ''g'', ''h'', ''i'', ''j'', ''k'']\<rparr>"

text \<open>
  Player \<open>a\<close> has fired bullet 0 to the right; players \<open>b\<close> and \<open>c\<close> both stand where the
  bullet is after its next step.
\<close>

definition stHit :: state where
  "stHit = st0\<lparr>players := [(''a'', p0),
                            (''b'', p0\<lparr>eid := SockId ''b'', pos_x := 110\<rparr>),
                            (''c'', p0\<lparr>eid := SockId ''c'', pos_x := 110\<rparr>)],
               bullets := [(0, \<lparr> bulletId = 0, ownerId = SockId ''a'', ownerName = ''Player'',
                                 bullet_x = 100, bullet_y = 100, vx = 10, vy = 0, damage = 10,
                                 bulletColor = 0, createdAt = 0 \<rparr>)],
               bulletIdCounter := 1\<rparr>"

text \<open>
  A lone bot with speed 2 whose heading has reached its target heading: in the corner
  (10, 10) heading \<open>\<pi>/2\<close>, at the left edge (10, 1000) heading \<open>\<pi>\<close>, at the lower edge
  (1000, 10) heading \<open>-\<pi>/2\<close>.
\<close>

definition cornerBot :: entity where
  "cornerBot = \<lparr> eid = BotId 0, name = ''[BOT] Echo'', pos_x = 10, pos_y = 10, color = 0,
           lastPing = 0, alive = True, joinTime = 0, score = 0, kills = 0, deaths = 0,
           health = 100, entMaxHealth = 100, lastShoot = 0, isBot = True,
           direction = pi / 2, targetDirection = pi / 2, speed = 2 \<rparr>"

definition stCorner :: state where
  "stCorner = \<lparr> players = [], bots = [(0, cornerBot)], bullets = [], bulletIdCounter = 0,
            botIdCounter = 1, timers = [], outbox = [], rng = (\<lambda>_. 1 / 2), rngIdx = 0 \<rparr>"

definition edgeBot :: entity where
  "edgeBot = cornerBot\<lparr>pos_y := 1000, direction := pi, targetDirection := pi\<rparr>"

definition floorBot :: entity where
  "floorBot = cornerBot\<lparr>pos_x := 1000, direction := - (pi / 2), targetDirection := - (pi / 2)\<rparr>"

definition stEdge :: state where
  "stEdge = stCorner\<lparr>bots := [(0, edgeBot)]\<rparr>"


section \<open>Auxiliary lemmas\<close>

lemma map_of_map_entry_same:
  "map_of (AList.map_entry k f al) k = map_option f (map_of al k)"
  by (simp add: map_of_map_entry split: option.splits)

lemma map_entry_twice:
  "AList.map_entry k f (AList.map_entry k g al) = AList.map_entry k (f \<circ> g) al"
  by (induction al) auto

lemma outbox_emit [simp]: "outbox (emit a e st) = outbox st @ [(a, e)]"
  by (simp add: emit_def)

lemma players_emit [simp]: "players (emit a e st) = players st"
  by (simp add: emit_def)

lemma bots_emit [simp]: "bots (emit a e st) = bots st"
  by (simp add: emit_def)

lemma clamp_number:
  "c \<noteq> NaN \<Longrightarrow> 0 \<le> w \<Longrightarrow> \<exists>r. jsMax 0 (jsMin w c) = Num r \<and> 0 \<le> r \<and> r \<le> w"
  by (cases c) auto

lemma clamp_again:
  "0 \<le> r \<Longrightarrow> r \<le> w \<Longrightarrow> jsMax 0 (jsMin w (Num r)) = Num r"
  by simp

lemma playerMove_numbers:
  "map_of (players s) sid = Some q \<Longrightarrow> alive q \<Longrightarrow>
   jsMax 0 (jsMin (worldWidth gameConfig) cx) = Num x \<Longrightarrow>
   jsMax 0 (jsMin (worldHeight gameConfig) cy) = Num y \<Longrightarrow>
   playerMove sid (Some (cx, cy)) s =
     Inr (emit (ToOthers sid) (PlayerMoved (SockId sid) x y)
            (modifyEntity (SockId sid) (\<lambda>p. p\<lparr>pos_x := x, pos_y := y\<rparr>) s))"
  by (simp add: playerMove_def Let_def)

text \<open>
  On numbers the move handler clamps: for a living player and coordinates that are not
  \<^verbatim>\<open>NaN\<close> (infinite ones included), the handler returns normally, the stored position is
  the clamped input and lies within the world bounds, the other sessions are told, and
  sending the stored position again changes no player.
\<close>

lemma playerMove_clamps_numbers:
  assumes "map_of (players st) sid = Some p" and "alive p"
    and "cx \<noteq> NaN" and "cy \<noteq> NaN"
  shows "\<exists>st' x y. playerMove sid (Some (cx, cy)) st = Inr st' \<and>
           jsMax 0 (jsMin (worldWidth gameConfig) cx) = Num x \<and>
           jsMax 0 (jsMin (worldHeight gameConfig) cy) = Num y \<and>
           map_of (players st') sid = Some (p\<lparr>pos_x := x, pos_y := y\<rparr>) \<and>
           0 \<le> x \<and> x \<le> worldWidth gameConfig \<and> 0 \<le> y \<and> y \<le> worldHeight gameConfig \<and>
           outbox st' = outbox st @ [(ToOthers sid, PlayerMoved (SockId sid) x y)] \<and>
           (\<exists>st''. playerMove sid (Some (Num x, Num y)) st' = Inr st'' \<and>
                   players st'' = players st')"
proof -
  have w: "0 \<le> worldWidth gameConfig" "0 \<le> worldHeight gameConfig"
    by (simp_all add: gameConfig_def)
  from clamp_number [OF assms(3) w(1)] obtain x
    where x: "jsMax 0 (jsMin (worldWidth gameConfig) cx) = Num x"
      "0 \<le> x" "x \<le> worldWidth gameConfig" by blast
  from clamp_number [OF assms(4) w(2)] obtain y
    where y: "jsMax 0 (jsMin (worldHeight gameConfig) cy) = Num y"
      "0 \<le> y" "y \<le> worldHeight gameConfig" by blast
  define st' where "st' = emit (ToOthers sid) (PlayerMoved (SockId sid) x y)
            (modifyEntity (SockId sid) (\<lambda>p. p\<lparr>pos_x := x, pos_y := y\<rparr>) st)"
  have r1: "playerMove sid (Some (cx, cy)) st = Inr st'"
    unfolding st'_def using assms(1,2) x(1) y(1) by (rule playerMove_numbers)
  have look: "map_of (players st') sid = Some (p\<lparr>pos_x := x, pos_y := y\<rparr>)"
    by (simp add: st'_def map_of_map_entry_same assms(1))
  have al: "alive (p\<lparr>pos_x := x, pos_y := y\<rparr>)" using assms(2) by simp
  have ob: "outbox st' = outbox st @ [(ToOthers sid, PlayerMoved (SockId sid) x y)]"
    by (simp add: st'_def)
  define st'' where "st'' = emit (ToOthers sid) (PlayerMoved (SockId sid) x y)
            (modifyEntity (SockId sid) (\<lambda>p. p\<lparr>pos_x := x, pos_y := y\<rparr>) st')"
  have r2: "playerMove sid (Some (Num x, Num y)) st' = Inr st''"
    unfolding st''_def
    using look al clamp_again [OF x(2,3)] clamp_again [OF y(2,3)] by (rule playerMove_numbers)
  have same: "players st'' = players st'"
    by (simp add: st''_def st'_def map_entry_twice comp_def)
  from r1 x y look ob r2 same show ?thesis by blast
qed

lemma emit_other_fields [simp]:
  "botIdCounter (emit a e st) = botIdCounter st"
  "bulletIdCounter (emit a e st) = bulletIdCounter st"
  "bullets (emit a e st) = bullets st"
  "timers (emit a e st) = timers st"
  "rng (emit a e st) = rng st"
  "rngIdx (emit a e st) = rngIdx st"
  by (simp_all add: emit_def)

lemma keys_map_entry [simp]: "map fst (AList.map_entry k f al) = map fst al"
  by (induction al) auto

lemma length_map_entry [simp]: "length (AList.map_entry k f al) = length al"
  by (induction al) auto

lemma createBot_fields:
  "players (createBot now s) = players s"
  "botIdCounter (createBot now s) = Suc (botIdCounter s)"
  by (simp_all add: createBot_def Let_def)

lemma createBot_keys:
  "wfBots s \<Longrightarrow> map fst (bots (createBot now s)) = map fst (bots s) @ [botIdCounter s]"
  by (auto simp: createBot_def Let_def wfBots_def update_keys list_all_iff)

lemma createBot_wf: "wfBots s \<Longrightarrow> wfBots (createBot now s)"
  unfolding wfBots_def [of "createBot now s"]
  by (auto simp: createBot_keys createBot_fields wfBots_def list_all_iff)

lemma createBot_funpow:
  "wfBots s \<Longrightarrow>
   wfBots ((createBot now ^^ n) s) \<and>
   players ((createBot now ^^ n) s) = players s \<and>
   length (bots ((createBot now ^^ n) s)) = length (bots s) + n"
proof (induction n)
  case 0
  then show ?case by simp
next
  case (Suc n)
  let ?s = "(createBot now ^^ n) s"
  from Suc have wf: "wfBots ?s" and pl: "players ?s = players s"
    and len: "length (bots ?s) = length (bots s) + n" by simp_all
  have "length (map fst (bots (createBot now ?s))) = Suc (length (bots ?s))"
    by (simp only: createBot_keys [OF wf]) simp
  then have "length (bots (createBot now ?s)) = Suc (length (bots ?s))" by simp
  with wf pl len show ?case
    by (simp add: createBot_wf createBot_fields)
qed

lemma removeBot_fields:
  "players (removeBot k s) = players s"
  "botIdCounter (removeBot k s) = botIdCounter s"
  by (simp_all add: removeBot_def split: option.splits)

lemma removeBot_head:
  "bots s = (k, v) # rest \<Longrightarrow> k \<notin> fst ` set rest \<Longrightarrow> bots (removeBot k s) = rest"
  by (simp add: removeBot_def)

lemma fold_removeBot:
  "distinct (map fst (bots s)) \<Longrightarrow>
   bots (fold removeBot (take n (map fst (bots s))) s) = drop n (bots s) \<and>
   players (fold removeBot (take n (map fst (bots s))) s) = players s \<and>
   botIdCounter (fold removeBot (take n (map fst (bots s))) s) = botIdCounter s"
proof (induction n arbitrary: s)
  case 0
  then show ?case by simp
next
  case (Suc n)
  show ?case
  proof (cases "bots s")
    case Nil
    then show ?thesis by simp
  next
    case (Cons kv rest)
    obtain k v where kv: "kv = (k, v)" by (cases kv)
    from Suc.prems Cons kv have notin: "k \<notin> fst ` set rest" and d: "distinct (map fst rest)"
      by auto
    have b: "bots (removeBot k s) = rest"
      using Cons kv notin by (simp add: removeBot_head)
    have "distinct (map fst (bots (removeBot k s)))" using b d by simp
    from Suc.IH [OF this] show ?thesis
      by (simp add: Cons kv b removeBot_fields)
  qed
qed

lemma wfBots_drop:
  assumes wf: "wfBots s" and b: "bots s' = drop n (bots s)"
    and c: "botIdCounter s' = botIdCounter s"
  shows "wfBots s'"
proof -
  have sub: "set (drop n (bots s)) \<subseteq> set (bots s)"
    by (rule set_drop_subset)
  have d: "distinct (map fst (drop n (bots s)))"
    using wf by (simp add: wfBots_def drop_map [symmetric])
  have "\<forall>kv \<in> set (bots s). fst kv < botIdCounter s"
    using wf by (simp add: wfBots_def list_all_iff)
  with sub have "\<forall>kv \<in> set (drop n (bots s)). fst kv < botIdCounter s" by blast
  with d show ?thesis by (simp add: wfBots_def list_all_iff b c)
qed

lemma manageBotPopulation_props:
  assumes "wfBots st"
  shows "populationWithinBounds (manageBotPopulation now st) \<and>
         players (manageBotPopulation now st) = players st \<and>
         wfBots (manageBotPopulation now st)"
proof -
  define total where "total = length (players st) + length (bots st)"
  define st1 where "st1 = (if total < minBots gameConfig
              then (createBot now ^^ (minBots gameConfig - total)) st else st)"
  define n where "n = min (length (bots st1)) (total - maxBots gameConfig)"
  have eq: "manageBotPopulation now st =
      (if length (bots st1) > 0 \<and> total > maxBots gameConfig
       then fold removeBot (take n (map fst (bots st1))) st1 else st1)"
    unfolding manageBotPopulation_def Let_def st1_def total_def n_def by (rule refl)
  have wf1: "wfBots st1" and pl1: "players st1 = players st"
    and len1: "length (bots st1) = (if total < minBots gameConfig
        then length (bots st) + (minBots gameConfig - total) else length (bots st))"
    using createBot_funpow [OF assms, where now = now and n = "minBots gameConfig - total"] assms
    by (simp_all add: st1_def)
  show ?thesis
  proof (cases "length (bots st1) > 0 \<and> total > maxBots gameConfig")
    case False
    have eq': "manageBotPopulation now st = st1" by (simp only: eq if_not_P [OF False])
    have "populationWithinBounds st1"
      using False len1 pl1
      by (auto simp: populationWithinBounds_def Let_def gameConfig_def total_def split: if_splits)
    then show ?thesis using wf1 pl1 by (simp add: eq')
  next
    case True
    define st2 where "st2 = fold removeBot (take n (map fst (bots st1))) st1"
    have eq': "manageBotPopulation now st = st2" by (simp only: eq if_P [OF True] st2_def)
    have d: "distinct (map fst (bots st1))" using wf1 by (simp add: wfBots_def)
    from fold_removeBot [OF d, of n]
    have b2: "bots st2 = drop n (bots st1)" and p2: "players st2 = players st1"
      and c2: "botIdCounter st2 = botIdCounter st1" by (simp_all add: st2_def)
    have wf2: "wfBots st2" using wf1 b2 c2 by (rule wfBots_drop)
    have "populationWithinBounds st2"
      using True len1 pl1
      by (auto simp: populationWithinBounds_def Let_def gameConfig_def total_def b2 p2 n_def
          split: if_splits)
    then show ?thesis using wf2 p2 pl1 by (simp add: eq')
  qed
qed

lemma sameKeys_refl [simp]: "sameKeys s s"
  by (simp add: sameKeys_def)

lemma sameKeys_trans: "sameKeys s s' \<Longrightarrow> sameKeys s' s'' \<Longrightarrow> sameKeys s s''"
  by (simp add: sameKeys_def)

lemma sameKeys_fold:
  assumes "\<And>k s. sameKeys s (f k s)"
  shows "sameKeys s (fold f ks s)"
proof (induction ks arbitrary: s)
  case Nil
  show ?case by simp
next
  case (Cons k ks)
  have "sameKeys s (f k s)" by (rule assms)
  moreover have "sameKeys (f k s) (fold f ks (f k s))" by (rule Cons.IH)
  ultimately show ?case by (simp add: sameKeys_trans)
qed

lemma sameKeys_modifyEntity [simp]: "sameKeys s (modifyEntity i f s)"
  by (cases i) (simp_all add: sameKeys_def)

lemma sameKeys_emit [simp]: "sameKeys s (emit a e s)"
  by (simp add: sameKeys_def)

lemma sameKeys_emit_iff [simp]: "sameKeys s (emit a e s') = sameKeys s s'"
  by (simp add: sameKeys_def)

lemma sameKeys_modifyEntity_iff [simp]: "sameKeys s (modifyEntity i f s') = sameKeys s s'"
  by (cases i) (simp_all add: sameKeys_def)

lemma sameKeys_upd [simp]:
  "sameKeys s (s'\<lparr>bullets := bs\<rparr>) = sameKeys s s'"
  "sameKeys s (s'\<lparr>timers := ts\<rparr>) = sameKeys s s'"
  "sameKeys s (s'\<lparr>rngIdx := i\<rparr>) = sameKeys s s'"
  "sameKeys s (s'\<lparr>bulletIdCounter := c\<rparr>) = sameKeys s s'"
  by (simp_all add: sameKeys_def)

lemma sameKeys_hitTarget: "sameKeys s (hitTarget now bId b ref s)"
  by (simp add: hitTarget_def Let_def split: option.splits)

lemma sameKeys_updateBullet: "sameKeys s (updateBullet now bId s)"
proof (cases "map_of (bullets s) bId")
  case None
  then show ?thesis by (simp add: updateBullet_def)
next
  case (Some b0)
  have "sameKeys s' (fold (hitTarget now bId b) ts s')" for s' b ts
    by (rule sameKeys_fold) (rule sameKeys_hitTarget)
  from this [THEN sameKeys_trans [rotated]] show ?thesis
    using Some by (simp add: updateBullet_def Let_def)
qed

lemma sameKeys_updateBullets: "sameKeys s (updateBullets now s)"
  unfolding updateBullets_def by (rule sameKeys_fold) (rule sameKeys_updateBullet)

lemma sameKeys_bots_upd [simp]:
  "sameKeys s (s'\<lparr>bots := AList.map_entry k f (bots s')\<rparr>) = sameKeys s s'"
  by (simp add: sameKeys_def)

lemma engage_fields:
  "engage now b nd enemy i s = (b', i', s') \<Longrightarrow>
   bots s' = bots s \<and> players s' = players s \<and> botIdCounter s' = botIdCounter s"
  by (auto simp: engage_def Let_def split: prod.splits if_splits)

lemma sameKeys_updateBot: "sameKeys s (updateBot now key s)"
proof (cases "map_of (bots s) key")
  case None
  then show ?thesis by (simp add: updateBot_def)
next
  case (Some bot0)
  show ?thesis
    using Some unfolding sameKeys_def
    by (auto simp: updateBot_def Let_def split: option.splits prod.splits
        dest!: engage_fields)
qed

lemma sameKeys_updateBots: "sameKeys s (updateBots now s)"
  unfolding updateBots_def by (rule sameKeys_fold) (rule sameKeys_updateBot)

lemma sameKeys_wfBots: "sameKeys s s' \<Longrightarrow> wfBots s \<Longrightarrow> wfBots s'"
  by (simp add: sameKeys_def wfBots_def)

lemma populationWithinBounds_cong:
  "length (players s') = length (players s) \<Longrightarrow> length (bots s') = length (bots s) \<Longrightarrow>
   populationWithinBounds s' = populationWithinBounds s"
  by (simp add: populationWithinBounds_def)

lemma tick_lengths:
  "length (players (tick now st)) = length (players (manageBotPopulation now (updateBullets now (updateBots now st))))"
  "length (bots (tick now st)) = length (bots (manageBotPopulation now (updateBullets now (updateBots now st))))"
  by (simp_all add: tick_def Let_def recomputeScores_def)

lemma tick_population:
  assumes "wfBots st"
  shows "populationWithinBounds (tick now st)"
proof -
  define st2 where "st2 = updateBullets now (updateBots now st)"
  have "sameKeys st st2"
    unfolding st2_def using sameKeys_updateBots sameKeys_updateBullets by (rule sameKeys_trans)
  then have "wfBots st2" using assms by (rule sameKeys_wfBots)
  then have ok: "populationWithinBounds (manageBotPopulation now st2)"
    by (simp add: manageBotPopulation_props)
  show ?thesis
    using ok populationWithinBounds_cong [OF tick_lengths, of now st] by (simp add: st2_def)
qed

lemma disconnect_unfold:
  "map_of (players st) sid = Some p \<Longrightarrow>
   disconnect sid now st =
     manageBotPopulation now
       ((emit (ToOthers sid) (PlayerLeft (SockId sid) ((now - joinTime p) div 1000))
          (modifyEntity (SockId sid) (\<lambda>p'. p'\<lparr>score := (now - joinTime p) div 1000\<rparr>) st))
        \<lparr>players := AList.delete sid (AList.map_entry sid
             (\<lambda>p'. p'\<lparr>score := (now - joinTime p) div 1000\<rparr>) (players st))\<rparr>)"
  by (simp add: disconnect_def Let_def)

lemma disconnect_population:
  assumes "wfBots st" and "map_of (players st) sid = Some p"
  shows "populationWithinBounds (disconnect sid now st)"
proof -
  have "wfBots ((emit (ToOthers sid) (PlayerLeft (SockId sid) ((now - joinTime p) div 1000))
          (modifyEntity (SockId sid) (\<lambda>p'. p'\<lparr>score := (now - joinTime p) div 1000\<rparr>) st))
        \<lparr>players := AList.delete sid (AList.map_entry sid
             (\<lambda>p'. p'\<lparr>score := (now - joinTime p) div 1000\<rparr>) (players st))\<rparr>)"
    using assms(1) by (simp add: wfBots_def)
  then show ?thesis
    unfolding disconnect_unfold [OF assms(2)] by (simp add: manageBotPopulation_props)
qed

lemma emitsOnly_refl: "emitsOnly P s s"
  by (simp add: emitsOnly_def)

lemma emitsOnly_trans: "emitsOnly P s s' \<Longrightarrow> emitsOnly P s' s'' \<Longrightarrow> emitsOnly P s s''"
  by (auto simp: emitsOnly_def)

lemma emitsOnly_createBot: "emitsOnly (notLeaveOf sid) s (createBot now s)"
  by (simp add: emitsOnly_def createBot_def Let_def notLeaveOf_def)

lemma emitsOnly_removeBot: "emitsOnly (notLeaveOf sid) s (removeBot k s)"
  by (simp add: emitsOnly_def removeBot_def notLeaveOf_def split: option.splits)

lemma emitsOnly_funpow:
  assumes "\<And>s. emitsOnly P s (f s)"
  shows "emitsOnly P s ((f ^^ n) s)"
proof (induction n)
  case 0
  show ?case by (simp add: emitsOnly_refl)
next
  case (Suc n)
  then show ?case using assms [of "(f ^^ n) s"] by (simp add: emitsOnly_trans)
qed

lemma emitsOnly_fold:
  assumes "\<And>k s. emitsOnly P s (f k s)"
  shows "emitsOnly P s (fold f ks s)"
proof (induction ks arbitrary: s)
  case Nil
  show ?case by (simp add: emitsOnly_refl)
next
  case (Cons k ks)
  show ?case using assms [of s k] Cons.IH [of "f k s"] by (simp add: emitsOnly_trans)
qed

lemma emitsOnly_manageBotPopulation:
  "emitsOnly (notLeaveOf sid) s (manageBotPopulation now s)"
proof -
  have a: "emitsOnly (notLeaveOf sid) s ((createBot now ^^ n) s)" for n s
    by (rule emitsOnly_funpow) (rule emitsOnly_createBot)
  have b: "emitsOnly (notLeaveOf sid) s (fold removeBot ks s)" for ks s
    by (rule emitsOnly_fold) (rule emitsOnly_removeBot)
  show ?thesis
    unfolding manageBotPopulation_def Let_def
    by (auto intro: a b emitsOnly_refl emitsOnly_trans [OF a b])
qed

lemma wander_keeps:
  "wander b r i = (b', i') \<Longrightarrow>
   pos_x b' = pos_x b \<and> pos_y b' = pos_y b \<and> direction b' = direction b"
  by (auto simp: wander_def Let_def split: if_splits)

lemma pursue_keeps:
  "pursue b nd a r i = (b', i') \<Longrightarrow>
   pos_x b' = pos_x b \<and> pos_y b' = pos_y b \<and> direction b' = direction b"
  by (auto simp: pursue_def split: if_splits)

lemma engage_keeps:
  "engage now b nd enemy i s = (b', i', s') \<Longrightarrow>
   pos_x b' = pos_x b \<and> pos_y b' = pos_y b \<and> direction b' = direction b \<and>
   bots s' = bots s"
  by (auto simp: engage_def Let_def split: prod.splits if_splits dest!: pursue_keeps)

lemma updateBot_moves:
  assumes "map_of (bots st) key = Some b0" and "alive b0"
  shows "\<exists>b lp. pos_x b = pos_x b0 \<and> pos_y b = pos_y b0 \<and> direction b = direction b0 \<and>
           map_of (bots (updateBot now key st)) key = Some ((moveBot b)\<lparr>lastPing := lp\<rparr>)"
proof -
  define b1 where "b1 = b0\<lparr>score := (now - joinTime b0) div 1000 + kills b0 * 100\<rparr>"
  define dec where "dec =
     (case findNearestEnemy b1 st of
        None \<Rightarrow> (let (w, i1) = wander b1 (rng st) (rngIdx st) in (w, i1, st))
      | Some (nd, enemy) \<Rightarrow>
          if nd < botDetectionRange gameConfig
          then engage now b1 nd enemy (rngIdx st) st
          else (let (w, i1) = wander b1 (rng st) (rngIdx st) in (w, i1, st)))"
  obtain b2 i2 stF where dec: "dec = (b2, i2, stF)" by (cases dec)
  have keep: "pos_x b2 = pos_x b0 \<and> pos_y b2 = pos_y b0 \<and> direction b2 = direction b0"
    and bF: "bots stF = bots st"
    using dec unfolding dec_def
    by (auto simp: b1_def Let_def split: option.splits prod.splits if_splits
        dest!: wander_keeps engage_keeps)
  have look: "map_of (bots (updateBot now key st)) key = Some (moveBot b2) \<or>
      map_of (bots (updateBot now key st)) key = Some ((moveBot b2)\<lparr>lastPing := now\<rparr>)"
    using assms dec bF unfolding dec_def b1_def
    by (simp add: updateBot_def Let_def map_of_map_entry_same split: option.splits prod.splits)
  then show ?thesis
  proof
    assume "map_of (bots (updateBot now key st)) key = Some (moveBot b2)"
    then have "map_of (bots (updateBot now key st)) key =
        Some ((moveBot b2)\<lparr>lastPing := lastPing (moveBot b2)\<rparr>)" by simp
    with keep show ?thesis by blast
  next
    assume "map_of (bots (updateBot now key st)) key = Some ((moveBot b2)\<lparr>lastPing := now\<rparr>)"
    with keep show ?thesis by blast
  qed
qed




section \<open>Session Gateway: move, ping\<close>

text \<open>
  C6. The claim: after a move intent of a living player the stored position is within
  the world bounds, for every pair of coordinates. Evaluated on the code: the handler
  clamps with \<^verbatim>\<open>Math.max(0, Math.min(worldWidth, x))\<close> and does not check the payload. For the
  living player \<open>a\<close>, a payload whose \<^verbatim>\<open>x\<close> is missing and whose \<^verbatim>\<open>y\<close> is 5000 stores and
  broadcasts the position \<open>(NaN, 2000)\<close>, which is in no interval; a payload that is
  \<^verbatim>\<open>undefined\<close> makes the handler throw.
\<close>

theorem playerMove_not_a_number:
  "map_of (players st0) ''a'' = Some p0 \<and> alive p0 \<and>
   playerMove ''a'' (Some (NaN, Num 5000)) st0 = Inl (NotANumber NaN (Num 2000)) \<and>
   playerMove ''a'' None st0 = Inl TypeError"
  by (simp add: playerMove_def Let_def st0_def p0_def gameConfig_def)



text \<open>
  C10. An accepted \<^verbatim>\<open>emitPing\<close> stores \<open>floor((now - joinTime) / 1000)\<close> as the sender's
  score, without the \<open>kills * 100\<close> bonus: the kill count is unchanged, and the tick's
  recomputation at the same clock reading would give \<open>kills * 100\<close> more.
\<close>

theorem emitPing_overwrites_score:
  assumes "map_of (players st) sid = Some p" and "alive p"
    and "\<not> now - lastPing p < pingCooldown gameConfig"
  shows "\<exists>p'. map_of (players (emitPing sid now st)) sid = Some p' \<and>
           score p' = (now - joinTime p) div 1000 \<and> kills p' = kills p \<and> alive p' \<and>
           score (recomputeScore now p') = score p' + kills p * 100"
  using assms
  by (simp add: emitPing_def Let_def emit_def map_of_map_entry_same recomputeScore_def)

theorem emitPing_overwrites_score_witness:
  "\<exists>p'. map_of (players (emitPing ''a'' 5500 stK)) ''a'' = Some p' \<and>
           score p' = 5 \<and> kills p' = 2 \<and> alive p' \<and>
           score (recomputeScore 5500 p') = score p' + 200"
  using emitPing_overwrites_score [of stK "''a''" pK 5500]
  by (simp add: stK_def pK_def st0_def p0_def gameConfig_def)

section \<open>Score as a derived value\<close>

text \<open>
  C5. The claim: between ticks a living entity's score equals
  \<open>floor(secondsSinceJoin) + kills * 100\<close> as of the last recomputation. Evaluated on the
  code: player \<open>a\<close> has two kills and the score 205 that the tick's recomputation at time
  5500 gives (and gives again: the recomputation leaves it unchanged); an accepted
  \<^verbatim>\<open>emitPing\<close> at the same time stores 5, which is not \<open>5 + 2 * 100\<close>.
\<close>

theorem emitPing_breaks_score_formula:
  "map_of (players (recomputeScores 5500 stK)) ''a'' = Some pK \<and>
   alive pK \<and> score pK = (5500 - joinTime pK) div 1000 + kills pK * 100 \<and>
   map_of (players (emitPing ''a'' 5500 (recomputeScores 5500 stK))) ''a'' =
     Some (pK\<lparr>lastPing := 5500, score := 5\<rparr>) \<and>
   (5 :: int) \<noteq> (5500 - joinTime pK) div 1000 + kills pK * 100"
  by (simp add: emitPing_def recomputeScores_def recomputeScore_def Let_def emit_def
        stK_def pK_def st0_def p0_def gameConfig_def)

section \<open>Health and the alive flag\<close>

text \<open>
  C2. The claim: \<open>alive\<close> is false if and only if \<open>health = 0\<close> while a respawn is pending.
  Evaluated on the code: the living player \<open>a\<close> at health 100 reports an elimination; the
  handler clears \<open>alive\<close>, counts the death and schedules the respawn, and \<open>health\<close> is still
  100.
\<close>

theorem playerEliminated_leaves_health:
  "map_of (players (playerEliminated ''a'' (BotId 7) 1000 st0)) ''a'' =
     Some (p0\<lparr>alive := False, deaths := 1\<rparr>) \<and>
   health (p0\<lparr>alive := False, deaths := 1\<rparr>) = 100 \<and>
   timers (playerEliminated ''a'' (BotId 7) 1000 st0) = [(4000, SockId ''a'')]"
  by (simp add: playerEliminated_def getEntity_def Let_def emit_def st0_def p0_def
        gameConfig_def)

section \<open>Validation of inbound intents\<close>

text \<open>
  C3, as amended. \<^verbatim>\<open>playerMove\<close>, \<^verbatim>\<open>emitPing\<close> and \<^verbatim>\<open>shoot\<close> change nothing and emit nothing
  unless the sender's entity exists and is alive; \<^verbatim>\<open>setPlayerName\<close>, \<^verbatim>\<open>chatMessage\<close> and
  \<^verbatim>\<open>playerEliminated\<close> change nothing and emit nothing unless the sender's entity exists.
\<close>

theorem intents_guards:
  "((\<forall>p. map_of (players st) sid = Some p \<longrightarrow> \<not> alive p) \<longrightarrow>
      playerMove sid movementData st = Inr st \<and> emitPing sid now st = st \<and>
      shoot sid angle now st = st) \<and>
   (map_of (players st) sid = None \<longrightarrow>
      setPlayerName sid nm st = st \<and> chatMessage sid msg now st = st \<and>
      playerEliminated sid eliminatorId now st = st)"
  by (auto simp: playerMove_def emitPing_def shoot_def setPlayerName_def chatMessage_def
        playerEliminated_def split: option.splits)

theorem intents_guards_witness:
  "playerMove ''a'' (Some (Num 1, Num 2)) stDead = Inr stDead \<and>
   emitPing ''a'' 5000 stDead = stDead \<and>
   shoot ''a'' 0 5000 stDead = stDead \<and>
   playerMove ''b'' (Some (Num 1, Num 2)) stDead = Inr stDead \<and>
   emitPing ''b'' 5000 stDead = stDead \<and>
   shoot ''b'' 0 5000 stDead = stDead \<and>
   setPlayerName ''b'' ''Zed'' stDead = stDead \<and>
   chatMessage ''b'' ''hi'' 5000 stDead = stDead \<and>
   playerEliminated ''b'' (SockId ''a'') 5000 stDead = stDead"
  using intents_guards [of stDead "''a''" "Some (Num 1, Num 2)" 5000 0 "''Zed''" "''hi''"
          "SockId ''a''"]
        intents_guards [of stDead "''b''" "Some (Num 1, Num 2)" 5000 0 "''Zed''" "''hi''"
          "SockId ''a''"]
  by (simp add: stDead_def pDead_def st0_def p0_def)

text \<open>
  The claim as stated fails for a sender that exists and is dead: its \<^verbatim>\<open>setPlayerName\<close>
  renames the entity and is broadcast, and its \<^verbatim>\<open>chatMessage\<close> is broadcast.
\<close>

theorem dead_sender_counterexample:
  "map_of (players stDead) ''a'' = Some pDead \<and> \<not> alive pDead \<and>
   outbox stDead = [] \<and>
   outbox (setPlayerName ''a'' ''Zed'' stDead) =
     [(ToAll, PlayerNameUpdated (SockId ''a'') ''Zed'')] \<and>
   outbox (chatMessage ''a'' ''hi'' 5000 stDead) =
     [(ToAll, ChatMessage (SockId ''a'') 0 ''hi'' 5000)] \<and>
   map_of (players (setPlayerName ''a'' ''Zed'' stDead)) ''a'' = Some (pDead\<lparr>name := ''Zed''\<rparr>)"
  by (simp add: setPlayerName_def chatMessage_def Let_def emit_def stDead_def pDead_def
        st0_def p0_def)

section \<open>Population Manager: bounds\<close>

text \<open>
  C4, as amended. From a well-formed bot store, after \<^verbatim>\<open>manageBotPopulation\<close> has run, and so
  after every tick and every disconnect of a connected player,
  \<open>minBots \<le> humanCount + botCount \<le> max maxBots humanCount\<close>: the upper bound \<open>maxBots\<close>
  holds whenever no more than \<open>maxBots\<close> humans are connected.
\<close>

theorem population_bounds:
  assumes "wfBots st"
  shows "populationWithinBounds (manageBotPopulation now st) \<and>
         populationWithinBounds (tick now st) \<and>
         (\<forall>p. map_of (players st) sid = Some p \<longrightarrow>
              populationWithinBounds (disconnect sid now st))"
proof (intro conjI allI impI)
  show "populationWithinBounds (manageBotPopulation now st)"
    using manageBotPopulation_props [OF assms] by simp
  show "populationWithinBounds (tick now st)"
    using assms by (rule tick_population)
  show "populationWithinBounds (disconnect sid now st)"
    if "map_of (players st) sid = Some p" for p
    using assms that by (rule disconnect_population)
qed

theorem population_bounds_witness:
  "populationWithinBounds (manageBotPopulation 0 st0) \<and>
   populationWithinBounds (tick 0 st0) \<and>
   populationWithinBounds (disconnect ''a'' 0 st0)"
proof -
  have wf: "wfBots st0" by (simp add: wfBots_def st0_def)
  have p: "map_of (players st0) ''a'' = Some p0" by (simp add: st0_def)
  from population_bounds [OF wf, of 0 "''a''"] p show ?thesis by blast
qed

text \<open>
  The claim as stated fails with eleven humans and no bot: the manager leaves the state
  as it is, at every run, and the total stays above \<open>maxBots\<close>.
\<close>

theorem population_counterexample:
  "manageBotPopulation 0 crowd = crowd \<and>
   length (players crowd) + length (bots crowd) = 11 \<and>
   \<not> length (players crowd) + length (bots crowd) \<le> maxBots gameConfig"
  by (simp add: manageBotPopulation_def Let_def crowd_def st0_def gameConfig_def)

section \<open>Disconnect\<close>

text \<open>
  C9. When a connected player disconnects, exactly one \<^verbatim>\<open>playerLeft\<close> for that socket is sent
  (to the other sessions), and its \<open>finalScore\<close> is \<open>floor((now - joinTime) / 1000)\<close>: the
  value does not depend on the kill count, no \<open>kills * 100\<close> is added. The events that
  follow come from the Population Manager and are none of them a \<^verbatim>\<open>playerLeft\<close> for that
  socket.
\<close>

theorem disconnect_finalScore:
  assumes "map_of (players st) sid = Some p"
  shows "\<exists>evs. outbox (disconnect sid now st) =
            outbox st @ (ToOthers sid, PlayerLeft (SockId sid) ((now - joinTime p) div 1000)) # evs \<and>
          list_all (notLeaveOf sid) evs"
proof -
  define st3 where "st3 =
       (emit (ToOthers sid) (PlayerLeft (SockId sid) ((now - joinTime p) div 1000))
          (modifyEntity (SockId sid) (\<lambda>p'. p'\<lparr>score := (now - joinTime p) div 1000\<rparr>) st))
        \<lparr>players := AList.delete sid (AList.map_entry sid
             (\<lambda>p'. p'\<lparr>score := (now - joinTime p) div 1000\<rparr>) (players st))\<rparr>"
  have eq: "disconnect sid now st = manageBotPopulation now st3"
    unfolding st3_def using assms by (rule disconnect_unfold)
  have ob: "outbox st3 =
      outbox st @ [(ToOthers sid, PlayerLeft (SockId sid) ((now - joinTime p) div 1000))]"
    by (simp add: st3_def)
  from emitsOnly_manageBotPopulation [of sid st3 now]
  obtain evs where "outbox (manageBotPopulation now st3) = outbox st3 @ evs"
    and "list_all (notLeaveOf sid) evs"
    unfolding emitsOnly_def by blast
  then show ?thesis by (simp add: eq ob)
qed

theorem disconnect_finalScore_witness:
  "\<exists>evs. outbox (disconnect ''a'' 7900 stK) =
            outbox stK @ (ToOthers ''a'', PlayerLeft (SockId ''a'') 7) # evs \<and>
          list_all (notLeaveOf ''a'') evs"
  using disconnect_finalScore [of stK "''a''" pK 7900]
  by (simp add: stK_def pK_def st0_def p0_def)

section \<open>Combat Resolver: one hit per projectile\<close>

text \<open>
  C1. The claim: in one pass of \<^verbatim>\<open>updateBullets\<close> only the first qualifying target takes
  damage and at most one \<^verbatim>\<open>bulletRemoved\<close> is broadcast per projectile. Evaluated on the
  code: with two living targets \<open>b\<close> and \<open>c\<close> within the hit radius of \<open>a\<close>'s bullet, the
  inner \<^verbatim>\<open>forEach\<close> goes on after the first hit; both targets lose 10 health and
  \<^verbatim>\<open>bulletRemoved\<close> is broadcast twice for bullet 0.
\<close>

theorem updateBullets_hits_two_targets:
  "outbox (updateBullets 100 stHit) =
     [(ToAll, PlayerHit (SockId ''b'') 10 90 (SockId ''a'')), (ToAll, BulletRemoved 0),
      (ToAll, PlayerHit (SockId ''c'') 10 90 (SockId ''a'')), (ToAll, BulletRemoved 0)] \<and>
   map (\<lambda>(k, e). (k, health e)) (players (updateBullets 100 stHit)) =
     [(''a'', 100), (''b'', 90), (''c'', 90)] \<and>
   bullets (updateBullets 100 stHit) = []"
  by (simp add: updateBullets_def updateBullet_def hitTarget_def allTargets_def getEntity_def
        Let_def emit_def stHit_def st0_def p0_def gameConfig_def)

section \<open>Bot Controller: wall bounce\<close>

text \<open>
  C8, as amended. A living bot's stored state after its update is \<open>moveBot b\<close> (with
  \<open>lastPing\<close> set when it pinged), where \<open>b\<close> is the bot after behaviour selection, at the
  position and heading it had before. With \<open>d\<close> the heading after steering and
  \<open>(newX, newY)\<close> the projected position: an axis whose projected coordinate is within 50
  of an edge is clamped into \<open>[50, dimension - 50]\<close>; if only x crosses, heading and target
  heading become \<open>\<pi> - d\<close>; if only y crosses, \<open>-d\<close>; if both cross, \<open>-(\<pi> - d)\<close>. In
  particular a bot whose projected \<open>x < 50\<close> ends at \<open>x = 50\<close>, and with heading \<open>\<pi> - d\<close>
  when its projected y stays inside the margin.
\<close>

theorem bot_wall_bounce:
  "(map_of (bots st) key = Some b0 \<and> alive b0 \<longrightarrow>
      (\<exists>b lp. pos_x b = pos_x b0 \<and> pos_y b = pos_y b0 \<and> direction b = direction b0 \<and>
          map_of (bots (updateBot now key st)) key = Some ((moveBot b)\<lparr>lastPing := lp\<rparr>))) \<and>
   (let d = direction b + (targetDirection b - direction b) * (1 / 10);
        v = (if speed b = 0 then botSpeed gameConfig else speed b);
        newX = pos_x b + cos d * v;
        newY = pos_y b + sin d * v;
        crossX = (newX < 50 \<or> newX > worldWidth gameConfig - 50);
        crossY = (newY < 50 \<or> newY > worldHeight gameConfig - 50);
        b' = moveBot b
    in (crossX \<longrightarrow> pos_x b' = max 50 (min (worldWidth gameConfig - 50) newX) \<and>
                   50 \<le> pos_x b' \<and> pos_x b' \<le> worldWidth gameConfig - 50) \<and>
       (crossY \<longrightarrow> pos_y b' = max 50 (min (worldHeight gameConfig - 50) newY) \<and>
                   50 \<le> pos_y b' \<and> pos_y b' \<le> worldHeight gameConfig - 50) \<and>
       (crossX \<and> \<not> crossY \<longrightarrow> direction b' = pi - d \<and> targetDirection b' = pi - d) \<and>
       (\<not> crossX \<and> crossY \<longrightarrow> direction b' = - d \<and> targetDirection b' = - d) \<and>
       (crossX \<and> crossY \<longrightarrow> direction b' = - (pi - d) \<and> targetDirection b' = - (pi - d)) \<and>
       (newX < 50 \<longrightarrow> pos_x b' = 50) \<and>
       (newX < 50 \<and> \<not> crossY \<longrightarrow> direction b' = pi - d \<and> pos_x b' = 50))"
proof (rule conjI)
  show "map_of (bots st) key = Some b0 \<and> alive b0 \<longrightarrow>
      (\<exists>b lp. pos_x b = pos_x b0 \<and> pos_y b = pos_y b0 \<and> direction b = direction b0 \<and>
          map_of (bots (updateBot now key st)) key = Some ((moveBot b)\<lparr>lastPing := lp\<rparr>))"
    using updateBot_moves by blast
next
  show "let d = direction b + (targetDirection b - direction b) * (1 / 10);
        v = (if speed b = 0 then botSpeed gameConfig else speed b);
        newX = pos_x b + cos d * v;
        newY = pos_y b + sin d * v;
        crossX = (newX < 50 \<or> newX > worldWidth gameConfig - 50);
        crossY = (newY < 50 \<or> newY > worldHeight gameConfig - 50);
        b' = moveBot b
    in (crossX \<longrightarrow> pos_x b' = max 50 (min (worldWidth gameConfig - 50) newX) \<and>
                   50 \<le> pos_x b' \<and> pos_x b' \<le> worldWidth gameConfig - 50) \<and>
       (crossY \<longrightarrow> pos_y b' = max 50 (min (worldHeight gameConfig - 50) newY) \<and>
                   50 \<le> pos_y b' \<and> pos_y b' \<le> worldHeight gameConfig - 50) \<and>
       (crossX \<and> \<not> crossY \<longrightarrow> direction b' = pi - d \<and> targetDirection b' = pi - d) \<and>
       (\<not> crossX \<and> crossY \<longrightarrow> direction b' = - d \<and> targetDirection b' = - d) \<and>
       (crossX \<and> crossY \<longrightarrow> direction b' = - (pi - d) \<and> targetDirection b' = - (pi - d)) \<and>
       (newX < 50 \<longrightarrow> pos_x b' = 50) \<and>
       (newX < 50 \<and> \<not> crossY \<longrightarrow> direction b' = pi - d \<and> pos_x b' = 50)"
    unfolding Let_def moveBot_def
    by (simp add: gameConfig_def)
qed

theorem bot_wall_bounce_witness:
  "(\<exists>b lp. pos_x b = 10 \<and> pos_y b = 1000 \<and> direction b = pi \<and>
       map_of (bots (updateBot 0 0 stEdge)) 0 = Some ((moveBot b)\<lparr>lastPing := lp\<rparr>)) \<and>
   pos_x (moveBot edgeBot) = 50 \<and> direction (moveBot edgeBot) = 0 \<and>
   targetDirection (moveBot edgeBot) = 0 \<and>
   pos_y (moveBot floorBot) = 50 \<and> direction (moveBot floorBot) = pi / 2 \<and>
   targetDirection (moveBot floorBot) = pi / 2 \<and>
   pos_x (moveBot cornerBot) = 50 \<and> pos_y (moveBot cornerBot) = 50 \<and>
   direction (moveBot cornerBot) = - (pi / 2) \<and> targetDirection (moveBot cornerBot) = - (pi / 2)"
  using bot_wall_bounce [of stEdge 0 edgeBot 0 edgeBot]
        bot_wall_bounce [of stEdge 0 edgeBot 0 floorBot]
        bot_wall_bounce [of stEdge 0 edgeBot 0 cornerBot]
  by (simp add: stEdge_def stCorner_def edgeBot_def floorBot_def cornerBot_def gameConfig_def
        Let_def)

text \<open>
  The claim as stated fails in a corner: the bot at (10, 10) heading \<open>\<pi>/2\<close> has projected
  \<open>x < 50\<close> and ends the tick with heading \<open>-\<pi>/2\<close>, not \<open>\<pi> - \<pi>/2\<close>.
\<close>

theorem corner_bounce_counterexample:
  "map_of (bots (updateBots 0 stCorner)) 0 =
     Some (cornerBot\<lparr>direction := - (pi / 2), targetDirection := - (pi / 2),
                     pos_x := 50, pos_y := 50\<rparr>) \<and>
   pos_x cornerBot + cos (direction cornerBot) * speed cornerBot < 50 \<and>
   - (pi / 2) \<noteq> pi - direction cornerBot"
  by (simp add: updateBots_def updateBot_def findNearestEnemy_def wander_def moveBot_def
        Let_def emit_def stCorner_def cornerBot_def gameConfig_def)


end
